theory Spec2Isabelle
  imports Complex_Main "HOL-Library.Word" "HOL-Library.Multiset"
begin

section \<open>Data model of \<open>oacc_example.cpp\<close>\<close>

text \<open>
  The program is evaluated entirely by the C++ compiler (\<open>consteval\<close>, \<open>static_assert\<close>).
  A call that the compiler rejects is modelled as an error value (\<open>Inl\<close>), a call that
  compiles as the value it computes (\<open>Inr\<close>).

  The three flag wrappers (\<open>exceptions_type\<close>, \<open>benchmark_type\<close>, \<open>dev_type\<close>) are
  \<open>enum class ... : bool\<close> and are modelled by \<open>bool\<close>; the six value-carrying wrappers are
  \<open>enum class ... : uint64_t\<close> and are modelled by 64-bit words, whose arithmetic wraps
  modulo \<open>2 ^ 64\<close> and whose order is the unsigned one.
\<close>

type_synonym u64 = "64 word"

definition flag_disabled :: bool where
  \<comment> \<open>\<open>disabled = std::numeric_limits<bool>::min()\<close>\<close>
  "flag_disabled = False"

definition flag_enabled :: bool where
  \<comment> \<open>\<open>enabled = std::numeric_limits<bool>::max()\<close>\<close>
  "flag_enabled = True"

definition uint64_max :: u64 where
  \<comment> \<open>\<open>std::numeric_limits<uint64_t>::max()\<close>, the "unset" sentinel\<close>
  "uint64_max = 18446744073709551615"

text \<open>The nine wrapper types, as the tags that \<open>std::is_same_v\<close> compares.\<close>

datatype arg_type =
    exceptions_type
  | max_context_length_type
  | gpu_rank_type
  | gpu_count_type
  | max_prompt_length_type
  | max_generation_length_type
  | max_batch_size_type
  | benchmark_type
  | dev_type

text \<open>
  One argument of \<open>generate_model_config\<close>: a value of one of the nine wrapper types.
  The parameter pack \<open>arg_types... args\<close> is a list of such values.
\<close>

datatype config_arg =
    Exceptions bool
  | Max_context_length u64
  | Gpu_rank u64
  | Gpu_count u64
  | Max_prompt_length u64
  | Max_generation_length u64
  | Max_batch_size u64
  | Benchmark bool
  | Dev bool

fun type_of_arg :: "config_arg \<Rightarrow> arg_type" where
  "type_of_arg (Exceptions v) = exceptions_type"
| "type_of_arg (Max_context_length v) = max_context_length_type"
| "type_of_arg (Gpu_rank v) = gpu_rank_type"
| "type_of_arg (Gpu_count v) = gpu_count_type"
| "type_of_arg (Max_prompt_length v) = max_prompt_length_type"
| "type_of_arg (Max_generation_length v) = max_generation_length_type"
| "type_of_arg (Max_batch_size v) = max_batch_size_type"
| "type_of_arg (Benchmark v) = benchmark_type"
| "type_of_arg (Dev v) = dev_type"

text \<open>\<open>struct model_config\<close>, fields in declaration order.\<close>

record model_config =
  exceptions :: bool
  max_context_length :: u64
  max_prompt_length :: u64
  max_generation_length :: u64
  max_batch_size :: u64
  gpu_count :: u64
  gpu_rank :: u64
  benchmark :: bool
  dev :: bool

text \<open>
  \<open>model_config{}\<close>: the default member initialisers. \<open>exceptions_type{}\<close>,
  \<open>gpu_rank_type{}\<close>, \<open>benchmark_type{}\<close> and \<open>dev_type{}\<close> are value-initialised (zero).
\<close>

definition model_config_default :: model_config where
  "model_config_default =
     \<lparr> exceptions = False,
       max_context_length = 1024,
       max_prompt_length = uint64_max,
       max_generation_length = uint64_max,
       max_batch_size = 1,
       gpu_count = 1,
       gpu_rank = 0,
       benchmark = False,
       dev = False \<rparr>"

text \<open>
  The nine overloads of \<open>model_config::update\<close>; overload resolution picks the one whose
  \<open>std::same_as\<close> constraint matches the argument's type. Each copies \<open>*this\<close>, assigns one
  field and returns the copy.
\<close>

fun update :: "model_config \<Rightarrow> config_arg \<Rightarrow> model_config" where
  "update c (Exceptions v) = c\<lparr>exceptions := v\<rparr>"
| "update c (Max_context_length v) = c\<lparr>max_context_length := v\<rparr>"
| "update c (Gpu_rank v) = c\<lparr>gpu_rank := v\<rparr>"
| "update c (Gpu_count v) = c\<lparr>gpu_count := v\<rparr>"
| "update c (Max_prompt_length v) = c\<lparr>max_prompt_length := v\<rparr>"
| "update c (Max_generation_length v) = c\<lparr>max_generation_length := v\<rparr>"
| "update c (Max_batch_size v) = c\<lparr>max_batch_size := v\<rparr>"
| "update c (Benchmark v) = c\<lparr>benchmark := v\<rparr>"
| "update c (Dev v) = c\<lparr>dev := v\<rparr>"

section \<open>Dependent defaults\<close>

text \<open>
  \<open>ceil_div(a, b) = (a + b - 1) / b\<close> on \<open>uint64_t\<close>. The addition and subtraction wrap.
  A division by zero is not a constant expression: the evaluation yields no value
  (\<open>None\<close>) and the compiler rejects the program.
\<close>

definition ceil_div :: "u64 \<Rightarrow> u64 \<Rightarrow> u64 option" where
  "ceil_div a b = (if b = 0 then None else Some ((a + b - 1) div b))"

text \<open>\<open>get_updated_value<value_01, value_02>()\<close>.\<close>

definition get_updated_value :: "u64 \<Rightarrow> u64 \<Rightarrow> u64 option" where
  "get_updated_value value_01 value_02 =
     (if value_01 = uint64_max then ceil_div value_02 2 else Some value_01)"

section \<open>Validation: \<open>model_config_type<config>\<close>\<close>

datatype model_config_errors =
    context_length_too_large
  | context_length_too_short
  | prompt_length_or_generation_length_too_large
  | duplicate_type_input

text \<open>
  What the compiler reports. \<open>error_printer_impl_val<enum_error, values...>\<close> and
  \<open>error_printer_impl<enum_error, types...>\<close> are the undefined templates whose names, with
  the error category and the values or types involved, appear in the diagnostic of a failed
  \<open>static_assert_printer_val\<close> or \<open>static_assert_printer\<close>.
\<close>

datatype compile_error =
    error_printer_impl_val model_config_errors "u64 list"
  | error_printer_impl model_config_errors "arg_type list"
  | not_a_constant_expression
  | constraints_not_satisfied

text \<open>
  The static data members of \<open>model_config_type<config>\<close>. They carry the same names as the
  fields of \<open>model_config\<close> in the source and are prefixed here to keep the two records apart.
\<close>

record model_config_type =
  static_exceptions :: bool
  static_max_context_length :: u64
  static_max_prompt_length :: u64
  static_max_generation_length :: u64
  static_max_batch_size :: u64
  static_gpu_count :: u64
  static_gpu_rank :: u64
  static_benchmark :: bool
  static_dev :: bool

text \<open>The initialisers of the static members (source lines 210 to 218).\<close>

definition model_config_type_members :: "model_config \<Rightarrow> model_config_type option" where
  "model_config_type_members config =
     (case get_updated_value (max_prompt_length config) (max_context_length config) of
        None \<Rightarrow> None
      | Some mpl \<Rightarrow>
     (case get_updated_value (max_generation_length config) (max_context_length config) of
        None \<Rightarrow> None
      | Some mgl \<Rightarrow>
          Some \<lparr> static_exceptions = exceptions config,
                 static_max_context_length = max_context_length config,
                 static_max_prompt_length = mpl,
                 static_max_generation_length = mgl,
                 static_max_batch_size = max_batch_size config,
                 static_gpu_count = gpu_count config,
                 static_gpu_rank = gpu_rank config,
                 static_benchmark = benchmark config,
                 static_dev = dev config \<rparr>))"

text \<open>
  The two \<open>static_assert\<close> declarations (source lines 222 to 224). They are independent
  declarations of the class: neither guards the other, so the result lists every assertion
  that fails, in source order. The sum in the second one is a \<open>uint64_t\<close> addition.
\<close>

definition model_config_type_asserts :: "model_config_type \<Rightarrow> compile_error list" where
  "model_config_type_asserts m =
     (if static_max_context_length m > 1 then []
      else [error_printer_impl_val context_length_too_short [static_max_context_length m]])
     @
     (if static_max_generation_length m + static_max_prompt_length m \<le> static_max_context_length m
      then []
      else [error_printer_impl_val prompt_length_or_generation_length_too_large
              [static_max_context_length m, static_max_generation_length m,
               static_max_prompt_length m]])"

text \<open>
  Instantiating \<open>model_config_type<config>\<close>: the members if every assertion holds, the
  failed assertions otherwise.
\<close>

definition model_config_type_of :: "model_config \<Rightarrow> compile_error list + model_config_type" where
  "model_config_type_of config =
     (case model_config_type_members config of
        None \<Rightarrow> Inl [not_a_constant_expression]
      | Some m \<Rightarrow>
          (if model_config_type_asserts m = [] then Inr m
           else Inl (model_config_type_asserts m)))"

section \<open>Building: \<open>generate_model_config\<close>\<close>

text \<open>
  \<open>type_occurrence_count<search_type, check_types...>\<close>: the right fold
  \<open>(static_cast<uint64_t>(is_same_v<search_type, check_types>) + ...)\<close>, a \<open>uint64_t\<close>.
  The variable template is only ever instantiated with a pack that contains
  \<open>search_type\<close>, so the empty fold (ill-formed in C++) does not arise; here it is the
  neutral element of the sum.
\<close>

fun type_occurrence_count :: "arg_type \<Rightarrow> arg_type list \<Rightarrow> u64" where
  "type_occurrence_count search_type [] = 0"
| "type_occurrence_count search_type (t # check_types) =
     (if search_type = t then 1 else 0) + type_occurrence_count search_type check_types"

text \<open>
  \<open>concept unique_configuration_types\<close>:
  \<open>((type_occurrence_count<arg_types, arg_types...> == 1) && ...)\<close>; the empty fold over
  \<open>&&\<close> is \<open>true\<close>.
\<close>

definition unique_configuration_types :: "arg_type list \<Rightarrow> bool" where
  "unique_configuration_types arg_types =
     list_all (\<lambda>t. type_occurrence_count t arg_types = 1) arg_types"

text \<open>
  The fold expression \<open>((config_new = config_new.update(args)), ...)\<close>: a fold over the comma
  operator, which evaluates the updates from left to right.
\<close>

fun update_fold :: "model_config \<Rightarrow> config_arg list \<Rightarrow> model_config" where
  "update_fold config_new [] = config_new"
| "update_fold config_new (a # args) = update_fold (update config_new a) args"

text \<open>
  \<open>generate_model_config(model_config config_new, arg_types... args)\<close>, the overload with
  a base configuration.

  The type-constraint in the template head, \<open>template<unique_configuration_types... arg_types>\<close>,
  constrains each type of the pack on its own (\<open>(unique_configuration_types<arg_types> && ...)\<close>);
  the \<open>static_assert\<close> in the body applies the concept to the whole pack and is evaluated
  when the function is instantiated, before its body is executed.
\<close>

definition generate_model_config_from :: "model_config \<Rightarrow> config_arg list \<Rightarrow> compile_error + model_config" where
  "generate_model_config_from config_new args =
     (let arg_types = map type_of_arg args in
      if \<not> list_all (\<lambda>t. unique_configuration_types [t]) arg_types
        then Inl constraints_not_satisfied
      else if \<not> unique_configuration_types arg_types
        then Inl (error_printer_impl duplicate_type_input arg_types)
      else Inr (update_fold config_new args))"

text \<open>\<open>generate_model_config(arg_types... args)\<close>: the same, starting from \<open>model_config{}\<close>.\<close>

definition generate_model_config :: "config_arg list \<Rightarrow> compile_error + model_config" where
  "generate_model_config args =
     (let arg_types = map type_of_arg args in
      if \<not> list_all (\<lambda>t. unique_configuration_types [t]) arg_types
        then Inl constraints_not_satisfied
      else if \<not> unique_configuration_types arg_types
        then Inl (error_printer_impl duplicate_type_input arg_types)
      else Inr (update_fold model_config_default args))"

section \<open>Notions used to state the properties\<close>

text \<open>
  The mathematical ceiling of \<open>n / 2\<close>, as the specification words the dependent default
  ("\<open>ceil(max-context-length / 2)\<close>"). It is compared below with what \<open>ceil_div\<close> computes.
\<close>

definition ceil_half :: "nat \<Rightarrow> nat" where
  "ceil_half n = nat \<lceil>real n / 2\<rceil>"

text \<open>
  Reading a configuration field by the wrapper type that addresses it, and the value an
  argument carries, both as a flag or a number. They make "the field for kind K" and
  "every other field" statements about all nine fields at once.
\<close>

datatype field_value = Flag bool | Number u64

fun field_of :: "arg_type \<Rightarrow> model_config \<Rightarrow> field_value" where
  "field_of exceptions_type c = Flag (exceptions c)"
| "field_of max_context_length_type c = Number (max_context_length c)"
| "field_of gpu_rank_type c = Number (gpu_rank c)"
| "field_of gpu_count_type c = Number (gpu_count c)"
| "field_of max_prompt_length_type c = Number (max_prompt_length c)"
| "field_of max_generation_length_type c = Number (max_generation_length c)"
| "field_of max_batch_size_type c = Number (max_batch_size c)"
| "field_of benchmark_type c = Flag (benchmark c)"
| "field_of dev_type c = Flag (dev c)"

fun arg_value :: "config_arg \<Rightarrow> field_value" where
  "arg_value (Exceptions v) = Flag v"
| "arg_value (Max_context_length v) = Number v"
| "arg_value (Gpu_rank v) = Number v"
| "arg_value (Gpu_count v) = Number v"
| "arg_value (Max_prompt_length v) = Number v"
| "arg_value (Max_generation_length v) = Number v"
| "arg_value (Max_batch_size v) = Number v"
| "arg_value (Benchmark v) = Flag v"
| "arg_value (Dev v) = Flag v"

section \<open>Auxiliary facts\<close>

subsection \<open>Updates\<close>

lemma update_commute:
  "type_of_arg a \<noteq> type_of_arg b \<Longrightarrow> update (update c a) b = update (update c b) a"
  by (cases a; cases b; simp)

lemma update_fold_conv_fold: "update_fold c args = fold (\<lambda>a c. update c a) args c"
  by (induction args arbitrary: c) simp_all

lemma update_fold_permutation:
  assumes "distinct (map type_of_arg xs)" and "mset ys = mset xs"
  shows "update_fold c ys = update_fold c xs"
proof -
  have inj: "inj_on type_of_arg (set xs)"
    using assms(1) by (simp add: distinct_map)
  have "(\<lambda>c. update c x) \<circ> (\<lambda>c. update c y) = (\<lambda>c. update c y) \<circ> (\<lambda>c. update c x)"
    if "x \<in> set xs" and "y \<in> set xs" for x y
  proof (cases "x = y")
    case True
    then show ?thesis by simp
  next
    case False
    with inj that have "type_of_arg y \<noteq> type_of_arg x"
      by (auto dest: inj_onD)
    then show ?thesis
      by (auto simp: fun_eq_iff update_commute)
  qed
  then have "fold (\<lambda>a c. update c a) xs = fold (\<lambda>a c. update c a) ys"
    using assms(2) by (intro fold_multiset_equiv) simp_all
  then show ?thesis
    by (simp add: update_fold_conv_fold)
qed

lemma field_of_determines_config:
  fixes c c' :: model_config
  shows "(\<forall>k. field_of k c = field_of k c') \<longleftrightarrow> c = c'"
proof
  assume h: "\<forall>k. field_of k c = field_of k c'"
  have "exceptions c = exceptions c'"
    using h[rule_format, of exceptions_type] by simp
  moreover have "max_context_length c = max_context_length c'"
    using h[rule_format, of max_context_length_type] by simp
  moreover have "max_prompt_length c = max_prompt_length c'"
    using h[rule_format, of max_prompt_length_type] by simp
  moreover have "max_generation_length c = max_generation_length c'"
    using h[rule_format, of max_generation_length_type] by simp
  moreover have "max_batch_size c = max_batch_size c'"
    using h[rule_format, of max_batch_size_type] by simp
  moreover have "gpu_count c = gpu_count c'"
    using h[rule_format, of gpu_count_type] by simp
  moreover have "gpu_rank c = gpu_rank c'"
    using h[rule_format, of gpu_rank_type] by simp
  moreover have "benchmark c = benchmark c'"
    using h[rule_format, of benchmark_type] by simp
  moreover have "dev c = dev c'"
    using h[rule_format, of dev_type] by simp
  ultimately show "c = c'"
    by simp
next
  assume "c = c'"
  then show "\<forall>k. field_of k c = field_of k c'" by simp
qed

subsection \<open>The uniqueness check\<close>

lemma type_occurrence_count_conv:
  "type_occurrence_count s ts = of_nat (count_list ts s)"
  by (induction ts) auto

lemma single_type_unique: "unique_configuration_types [t]"
  by (simp add: unique_configuration_types_def)

lemma template_head_constraint: "list_all (\<lambda>t. unique_configuration_types [t]) ts"
  by (simp add: list_all_iff single_type_unique)

lemma distinct_imp_unique:
  assumes "distinct ts"
  shows "unique_configuration_types ts"
proof -
  have "count_list ts t = 1" if "t \<in> set ts" for t
    using assms that by (induction ts) auto
  then show ?thesis
    by (simp add: unique_configuration_types_def list_all_iff type_occurrence_count_conv)
qed

lemma repeated_element_count:
  "\<not> distinct ts \<Longrightarrow> \<exists>t \<in> set ts. 2 \<le> count_list ts t"
proof (induction ts)
  case Nil
  then show ?case by simp
next
  case (Cons a ts)
  show ?case
  proof (cases "a \<in> set ts")
    case True
    then have "count_list ts a \<noteq> 0"
      by (simp add: count_list_0_iff)
    then show ?thesis
      by (intro bexI[of _ a]) auto
  next
    case False
    with Cons.prems have "\<not> distinct ts" by simp
    from Cons.IH[OF this] obtain t where "t \<in> set ts" and "2 \<le> count_list ts t"
      by blast
    then show ?thesis
      by (intro bexI[of _ t]) auto
  qed
qed

text \<open>
  The occurrence count is a \<open>uint64_t\<close>. A pack has fewer than \<open>2 ^ 64\<close> elements
  (\<open>sizeof...\<close> is a \<open>std::size_t\<close>), so the count does not wrap.
\<close>

lemma unique_imp_distinct:
  assumes "unique_configuration_types ts" and "length ts < 2 ^ 64"
  shows "distinct ts"
proof (rule ccontr)
  assume "\<not> distinct ts"
  then obtain t where t: "t \<in> set ts" "2 \<le> count_list ts t"
    using repeated_element_count by blast
  have "count_list ts t < 2 ^ 64"
    using count_le_length[of ts t] assms(2) by simp
  then have "unat (of_nat (count_list ts t) :: u64) = count_list ts t"
    by (simp add: unat_of_nat)
  moreover have "(of_nat (count_list ts t) :: u64) = 1"
    using assms(1) t(1)
    by (simp add: unique_configuration_types_def list_all_iff type_occurrence_count_conv)
  ultimately show False
    using t(2) by simp
qed

subsection \<open>Dependent defaults and validation\<close>

lemma ceil_half_conv: "ceil_half n = (n + 1) div 2"
  unfolding ceil_half_def by linarith

lemma uint64_max_unat: "unat uint64_max = 2 ^ 64 - 1"
  by (simp add: uint64_max_def)

lemma unat_succ:
  assumes "a \<noteq> uint64_max"
  shows "unat (a + 1) = unat a + 1"
proof -
  have "unat a \<noteq> unat uint64_max"
    using assms by (simp add: word_unat_eq_iff)
  moreover have "unat a < 2 ^ 64"
    using unsigned_less[of a] by simp
  ultimately have "unat a + unat (1 :: u64) < 2 ^ LENGTH(64)"
    by (simp add: uint64_max_unat)
  then show ?thesis
    using unat_add_lem[of a 1] by simp
qed

lemma ceil_div_2: "ceil_div a 2 = Some ((a + 1) div 2)"
  by (simp add: ceil_div_def add.commute)

lemma ceil_div_2_unat:
  assumes "a \<noteq> uint64_max"
  shows "unat ((a + 1) div 2) = ceil_half (unat a)"
  using unat_succ[OF assms] by (simp add: unat_div ceil_half_conv)

lemma get_updated_value_total:
  "get_updated_value v m = Some (if v = uint64_max then (m + 1) div 2 else v)"
  by (simp add: get_updated_value_def ceil_div_2)

lemma members_total:
  "model_config_type_members c =
     Some \<lparr> static_exceptions = exceptions c,
            static_max_context_length = max_context_length c,
            static_max_prompt_length =
              (if max_prompt_length c = uint64_max then (max_context_length c + 1) div 2
               else max_prompt_length c),
            static_max_generation_length =
              (if max_generation_length c = uint64_max then (max_context_length c + 1) div 2
               else max_generation_length c),
            static_max_batch_size = max_batch_size c,
            static_gpu_count = gpu_count c,
            static_gpu_rank = gpu_rank c,
            static_benchmark = benchmark c,
            static_dev = dev c \<rparr>"
  by (simp add: model_config_type_members_def get_updated_value_total)

lemma asserts_Nil:
  "model_config_type_asserts m = [] \<longleftrightarrow>
     1 < static_max_context_length m \<and>
     static_max_generation_length m + static_max_prompt_length m \<le> static_max_context_length m"
  by (simp add: model_config_type_asserts_def)

lemma type_of_Inr:
  "model_config_type_of c = Inr r \<longleftrightarrow>
     model_config_type_members c = Some r \<and> model_config_type_asserts r = []"
  by (auto simp: model_config_type_of_def split: option.splits if_splits)

lemma type_of_Inl:
  "model_config_type_of c = Inl es \<longleftrightarrow>
     (\<exists>m. model_config_type_members c = Some m \<and> es = model_config_type_asserts m \<and> es \<noteq> [])"
  using members_total[of c]
  by (auto simp: model_config_type_of_def split: option.splits if_splits)

lemma too_short_in_asserts:
  "error_printer_impl_val context_length_too_short vs \<in> set (model_config_type_asserts m)
     \<longleftrightarrow> vs = [static_max_context_length m] \<and> \<not> 1 < static_max_context_length m"
  by (auto simp: model_config_type_asserts_def)

lemma too_large_in_asserts:
  "error_printer_impl_val prompt_length_or_generation_length_too_large vs
       \<in> set (model_config_type_asserts m)
     \<longleftrightarrow> vs = [static_max_context_length m, static_max_generation_length m,
                static_max_prompt_length m]
         \<and> \<not> static_max_generation_length m + static_max_prompt_length m
               \<le> static_max_context_length m"
  by (auto simp: model_config_type_asserts_def)

lemmas validation_defs =
  model_config_type_of_def model_config_type_members_def model_config_type_asserts_def
  get_updated_value_def ceil_div_def uint64_max_def

text \<open>
  With an odd context length and both lengths left unset, each resolves to the ceiling of
  the half and their sum exceeds the context length: the second assertion fails.
\<close>

lemma odd_context_length_defaults_rejected:
  "model_config_type_of (model_config_default\<lparr>max_context_length := 101\<rparr>)
     = Inl [error_printer_impl_val prompt_length_or_generation_length_too_large [101, 51, 51]]"
  by (simp add: validation_defs model_config_default_def)

subsection \<open>The builder\<close>

lemma generate_model_config_conv:
  "generate_model_config args =
     (if unique_configuration_types (map type_of_arg args)
      then Inr (update_fold model_config_default args)
      else Inl (error_printer_impl duplicate_type_input (map type_of_arg args)))"
  by (simp add: generate_model_config_def Let_def template_head_constraint)

lemma generate_model_config_from_conv:
  "generate_model_config_from base args =
     (if unique_configuration_types (map type_of_arg args)
      then Inr (update_fold base args)
      else Inl (error_printer_impl duplicate_type_input (map type_of_arg args)))"
  by (simp add: generate_model_config_from_def Let_def template_head_constraint)

section \<open>Properties of the builder\<close>

text \<open>
  Claim C1 (order independence). For arguments of pairwise distinct types, every permutation
  of the arguments is accepted by \<open>generate_model_config\<close> and yields the same
  \<open>model_config\<close>, namely the left-to-right fold of \<open>update\<close> over the arguments starting
  from \<open>model_config{}\<close>.
\<close>

theorem generate_model_config_order_independent:
  assumes "distinct (map type_of_arg xs)" and "mset ys = mset xs"
  shows "generate_model_config ys = generate_model_config xs
         \<and> generate_model_config xs = Inr (update_fold model_config_default xs)"
proof -
  have "mset (map type_of_arg ys) = mset (map type_of_arg xs)"
    using assms(2) by (metis mset_map)
  with assms(1) have "distinct (map type_of_arg ys)"
    by (metis mset_eq_imp_distinct_iff)
  then have "generate_model_config ys = Inr (update_fold model_config_default ys)"
    by (simp add: generate_model_config_conv distinct_imp_unique)
  moreover have "generate_model_config xs = Inr (update_fold model_config_default xs)"
    using assms(1)
    by (simp add: generate_model_config_conv distinct_imp_unique)
  ultimately show ?thesis
    using update_fold_permutation[OF assms] by simp
qed

theorem generate_model_config_order_independent_witness:
  "distinct (map type_of_arg [Dev False, Benchmark False, Max_batch_size 23])
   \<and> mset [Max_batch_size 23, Dev False, Benchmark False]
       = mset [Dev False, Benchmark False, Max_batch_size 23]
   \<and> generate_model_config [Max_batch_size 23, Dev False, Benchmark False]
       = generate_model_config [Dev False, Benchmark False, Max_batch_size 23]
   \<and> generate_model_config [Dev False, Benchmark False, Max_batch_size 23]
       = Inr \<lparr> exceptions = False, max_context_length = 1024,
               max_prompt_length = uint64_max, max_generation_length = uint64_max,
               max_batch_size = 23, gpu_count = 1, gpu_rank = 0,
               benchmark = False, dev = False \<rparr>"
proof -
  have d: "distinct (map type_of_arg [Dev False, Benchmark False, Max_batch_size 23])"
    by simp
  have p: "mset [Max_batch_size 23, Dev False, Benchmark False]
             = mset [Dev False, Benchmark False, Max_batch_size 23]"
    by simp
  show ?thesis
    using d p generate_model_config_order_independent[OF d p]
    by (simp add: model_config_default_def)
qed

text \<open>
  Claim C2 (duplicate rejection). If two arguments at different positions have the same type,
  whatever their values, \<open>generate_model_config\<close> is rejected with \<open>duplicate_type_input\<close>
  (the diagnostic names the argument types), and so is the overload with a base
  configuration. The result is the error alone: no configuration, updated in part or in
  whole, is produced. The pack is one the compiler can hold: fewer than \<open>2 ^ 64\<close> arguments.
\<close>

theorem generate_model_config_duplicate_rejected:
  assumes "length args < 2 ^ 64"
    and "i < length args" and "j < length args" and "i \<noteq> j"
    and "type_of_arg (args ! i) = type_of_arg (args ! j)"
  shows "generate_model_config args
           = Inl (error_printer_impl duplicate_type_input (map type_of_arg args))
         \<and> generate_model_config_from base args
           = Inl (error_printer_impl duplicate_type_input (map type_of_arg args))"
proof -
  have "\<not> distinct (map type_of_arg args)"
    using assms(2-5) by (auto simp: distinct_conv_nth)
  moreover have "length (map type_of_arg args) < 2 ^ 64"
    using assms(1) by simp
  ultimately have "\<not> unique_configuration_types (map type_of_arg args)"
    using unique_imp_distinct by blast
  then show ?thesis
    by (simp add: generate_model_config_conv generate_model_config_from_conv)
qed

theorem generate_model_config_duplicate_rejected_witness:
  "length [Dev False, Benchmark False, Max_batch_size 23, Dev True] < 2 ^ 64
   \<and> type_of_arg ([Dev False, Benchmark False, Max_batch_size 23, Dev True] ! 0)
       = type_of_arg ([Dev False, Benchmark False, Max_batch_size 23, Dev True] ! 3)
   \<and> generate_model_config [Dev False, Benchmark False, Max_batch_size 23, Dev True]
       = Inl (error_printer_impl duplicate_type_input
                [dev_type, benchmark_type, max_batch_size_type, dev_type])"
  using generate_model_config_duplicate_rejected
          [of "[Dev False, Benchmark False, Max_batch_size 23, Dev True]" 0 3]
  by simp

text \<open>
  Claim C7 (default configuration). The configuration built from no arguments has
  exceptions disabled, max context length 1024, max prompt length and max generation length
  \<open>UINT64_MAX\<close> (\<open>2 ^ 64 - 1\<close>, unset), max batch size 1, gpu count 1, gpu rank 0, benchmark
  disabled and dev disabled.
\<close>

theorem default_configuration_fields:
  "generate_model_config []
     = Inr \<lparr> exceptions = flag_disabled,
             max_context_length = 1024,
             max_prompt_length = uint64_max,
             max_generation_length = uint64_max,
             max_batch_size = 1,
             gpu_count = 1,
             gpu_rank = 0,
             benchmark = flag_disabled,
             dev = flag_disabled \<rparr>
   \<and> unat uint64_max = 2 ^ 64 - 1"
  by (simp add: generate_model_config_conv unique_configuration_types_def
      model_config_default_def flag_disabled_def uint64_max_def)

text \<open>
  Claim C8 (frame of \<open>update\<close>). After \<open>update\<close> with an argument of type K, the field
  addressed by K holds the argument's value and every field addressed by another type is as
  in the input configuration. By \<open>field_of_determines_config\<close> the nine fields read by
  \<open>field_of\<close> are all there is to a configuration.
\<close>

theorem update_frame:
  "field_of (type_of_arg a) (update c a) = arg_value a
   \<and> (\<forall>k. k \<noteq> type_of_arg a \<longrightarrow> field_of k (update c a) = field_of k c)"
proof (intro conjI allI impI)
  show "field_of (type_of_arg a) (update c a) = arg_value a"
    by (cases a) simp_all
next
  fix k
  assume "k \<noteq> type_of_arg a"
  then show "field_of k (update c a) = field_of k c"
    by (cases a; cases k) simp_all
qed

theorem update_frame_witness:
  "field_of max_batch_size_type (update model_config_default (Max_batch_size 23)) = Number 23
   \<and> dev_type \<noteq> type_of_arg (Max_batch_size 23)
   \<and> field_of dev_type (update model_config_default (Max_batch_size 23))
       = field_of dev_type model_config_default"
  using update_frame[of "Max_batch_size 23" model_config_default]
  by simp

section \<open>Properties of the dependent defaults and of validation\<close>

text \<open>
  Claim C3, as stated, at a concrete input. The configuration has max context length
  \<open>UINT64_MAX\<close>, max prompt length unset and max generation length 5. Validation succeeds
  and resolves the prompt length to 0, whereas the ceiling of \<open>(2 ^ 64 - 1) / 2\<close> is
  \<open>2 ^ 63 = 9223372036854775808\<close>.
\<close>

theorem resolution_at_uint64_max_not_ceiling:
  "max_prompt_length
     (model_config_default\<lparr>max_context_length := uint64_max, max_generation_length := 5\<rparr>)
     = uint64_max
   \<and> model_config_type_of
       (model_config_default\<lparr>max_context_length := uint64_max, max_generation_length := 5\<rparr>)
     = Inr \<lparr> static_exceptions = False, static_max_context_length = uint64_max,
             static_max_prompt_length = 0, static_max_generation_length = 5,
             static_max_batch_size = 1, static_gpu_count = 1, static_gpu_rank = 0,
             static_benchmark = False, static_dev = False \<rparr>
   \<and> ceil_half (unat uint64_max) = 9223372036854775808"
  by (simp add: validation_defs model_config_default_def ceil_half_def)

text \<open>
  Claim C3 (dependent defaults), amended in its ceiling part only. For every configuration
  the static members are computed, and a successful validation yields exactly them. A max
  prompt length other than the sentinel \<open>UINT64_MAX\<close> is kept unchanged, whatever the
  context length; a max prompt length equal to the sentinel resolves to the ceiling of half
  the context length, provided the context length is not \<open>UINT64_MAX\<close>. The same holds for
  the max generation length. In particular an unset prompt length resolves to 50 for context
  length 100 and to 51 for context length 101, and validating the default configuration
  succeeds with both lengths 512.
\<close>

theorem resolution_ceiling_or_unchanged:
  "(\<exists>m. model_config_type_members c = Some m
      \<and> (max_prompt_length c \<noteq> uint64_max \<longrightarrow>
           static_max_prompt_length m = max_prompt_length c)
      \<and> (max_prompt_length c = uint64_max \<longrightarrow> max_context_length c \<noteq> uint64_max \<longrightarrow>
           unat (static_max_prompt_length m) = ceil_half (unat (max_context_length c)))
      \<and> (max_generation_length c \<noteq> uint64_max \<longrightarrow>
           static_max_generation_length m = max_generation_length c)
      \<and> (max_generation_length c = uint64_max \<longrightarrow> max_context_length c \<noteq> uint64_max \<longrightarrow>
           unat (static_max_generation_length m) = ceil_half (unat (max_context_length c)))
      \<and> (\<forall>r. model_config_type_of c = Inr r \<longrightarrow> r = m))
   \<and> map_option static_max_prompt_length
        (model_config_type_members
           (d\<lparr>max_context_length := 100, max_prompt_length := uint64_max\<rparr>)) = Some 50
   \<and> map_option static_max_prompt_length
        (model_config_type_members
           (d\<lparr>max_context_length := 101, max_prompt_length := uint64_max\<rparr>)) = Some 51
   \<and> model_config_type_of (model_config_default\<lparr>max_context_length := 100\<rparr>)
       = Inr \<lparr> static_exceptions = False, static_max_context_length = 100,
               static_max_prompt_length = 50, static_max_generation_length = 50,
               static_max_batch_size = 1, static_gpu_count = 1, static_gpu_rank = 0,
               static_benchmark = False, static_dev = False \<rparr>
   \<and> model_config_type_of
         (model_config_default\<lparr>max_context_length := 101, max_generation_length := 50\<rparr>)
       = Inr \<lparr> static_exceptions = False, static_max_context_length = 101,
               static_max_prompt_length = 51, static_max_generation_length = 50,
               static_max_batch_size = 1, static_gpu_count = 1, static_gpu_rank = 0,
               static_benchmark = False, static_dev = False \<rparr>
   \<and> model_config_type_of model_config_default
       = Inr \<lparr> static_exceptions = False, static_max_context_length = 1024,
               static_max_prompt_length = 512, static_max_generation_length = 512,
               static_max_batch_size = 1, static_gpu_count = 1, static_gpu_rank = 0,
               static_benchmark = False, static_dev = False \<rparr>"
proof (intro conjI)
  have ceil: "unat ((max_context_length c + 1) div 2) = ceil_half (unat (max_context_length c))"
    if "max_context_length c \<noteq> uint64_max"
    using that by (rule ceil_div_2_unat)
  show "\<exists>m. model_config_type_members c = Some m
      \<and> (max_prompt_length c \<noteq> uint64_max \<longrightarrow>
           static_max_prompt_length m = max_prompt_length c)
      \<and> (max_prompt_length c = uint64_max \<longrightarrow> max_context_length c \<noteq> uint64_max \<longrightarrow>
           unat (static_max_prompt_length m) = ceil_half (unat (max_context_length c)))
      \<and> (max_generation_length c \<noteq> uint64_max \<longrightarrow>
           static_max_generation_length m = max_generation_length c)
      \<and> (max_generation_length c = uint64_max \<longrightarrow> max_context_length c \<noteq> uint64_max \<longrightarrow>
           unat (static_max_generation_length m) = ceil_half (unat (max_context_length c)))
      \<and> (\<forall>r. model_config_type_of c = Inr r \<longrightarrow> r = m)"
    using ceil by (simp add: members_total type_of_Inr)
next
  show "map_option static_max_prompt_length
        (model_config_type_members
           (d\<lparr>max_context_length := 100, max_prompt_length := uint64_max\<rparr>)) = Some 50"
    by (simp add: members_total)
next
  show "map_option static_max_prompt_length
        (model_config_type_members
           (d\<lparr>max_context_length := 101, max_prompt_length := uint64_max\<rparr>)) = Some 51"
    by (simp add: members_total)
qed (simp_all add: validation_defs model_config_default_def)

theorem resolution_ceiling_or_unchanged_witness:
  "max_prompt_length model_config_default = uint64_max
   \<and> max_generation_length model_config_default = uint64_max
   \<and> max_context_length model_config_default \<noteq> uint64_max
   \<and> (\<exists>m. model_config_type_members model_config_default = Some m
         \<and> unat (static_max_prompt_length m) = 512
         \<and> unat (static_max_generation_length m) = 512)
   \<and> max_context_length
        (model_config_default\<lparr>max_context_length := uint64_max, max_prompt_length := 7,
                              max_generation_length := 5\<rparr>) = uint64_max
   \<and> max_prompt_length
        (model_config_default\<lparr>max_context_length := uint64_max, max_prompt_length := 7,
                              max_generation_length := 5\<rparr>) \<noteq> uint64_max
   \<and> max_generation_length
        (model_config_default\<lparr>max_context_length := uint64_max, max_prompt_length := 7,
                              max_generation_length := 5\<rparr>) \<noteq> uint64_max
   \<and> (\<exists>m. model_config_type_of
              (model_config_default\<lparr>max_context_length := uint64_max, max_prompt_length := 7,
                                    max_generation_length := 5\<rparr>) = Inr m
         \<and> static_max_prompt_length m = 7
         \<and> static_max_generation_length m = 5)"
proof -
  have unset: "max_prompt_length model_config_default = uint64_max"
    "max_generation_length model_config_default = uint64_max"
    by (simp_all add: model_config_default_def)
  have ne: "max_context_length model_config_default \<noteq> uint64_max"
    by (simp add: model_config_default_def uint64_max_def)
  have h: "ceil_half (unat (max_context_length model_config_default)) = 512"
    by (simp add: ceil_half_def model_config_default_def)
  have first: "\<exists>m. model_config_type_members model_config_default = Some m
         \<and> unat (static_max_prompt_length m) = 512
         \<and> unat (static_max_generation_length m) = 512"
    using unset ne h resolution_ceiling_or_unchanged[of model_config_default]
    by auto
  let ?c = "model_config_default\<lparr>max_context_length := uint64_max, max_prompt_length := 7,
                                  max_generation_length := 5\<rparr>"
  have set: "max_context_length ?c = uint64_max" "max_prompt_length ?c \<noteq> uint64_max"
    "max_generation_length ?c \<noteq> uint64_max"
    by (simp_all add: uint64_max_def)
  have ok: "\<exists>r. model_config_type_of ?c = Inr r"
    by (simp add: validation_defs model_config_default_def)
  have second: "\<exists>m. model_config_type_of ?c = Inr m
         \<and> static_max_prompt_length m = 7 \<and> static_max_generation_length m = 5"
    using set ok resolution_ceiling_or_unchanged[of ?c]
    by auto
  show ?thesis
    using unset ne first set second by blast
qed

text \<open>
  Claim C4, as stated, at a concrete input. With the default context length 1024 and prompt
  and generation lengths both \<open>2 ^ 63\<close>, the sum of the two lengths exceeds the context
  length, yet validation succeeds: the \<open>uint64_t\<close> sum is 0.
\<close>

theorem mathematical_sum_too_large_accepted:
  "model_config_type_of
     (model_config_default\<lparr>max_prompt_length := 9223372036854775808,
                           max_generation_length := 9223372036854775808\<rparr>)
     = Inr \<lparr> static_exceptions = False, static_max_context_length = 1024,
             static_max_prompt_length = 9223372036854775808,
             static_max_generation_length = 9223372036854775808,
             static_max_batch_size = 1, static_gpu_count = 1, static_gpu_rank = 0,
             static_benchmark = False, static_dev = False \<rparr>
   \<and> unat (1024 :: u64)
       < unat (9223372036854775808 :: u64) + unat (9223372036854775808 :: u64)"
  by (simp add: validation_defs model_config_default_def)

text \<open>
  Claim C4 (prompt or generation too large), amended to the 64-bit sum. Validation reports
  \<open>prompt_length_or_generation_length_too_large\<close>, with the context length, the resolved
  generation length and the resolved prompt length, exactly when the sum of the two resolved
  lengths modulo \<open>2 ^ 64\<close> exceeds the context length. In particular context length 10 with
  prompt length 6 and generation length 6 fails with this error.
\<close>

theorem prompt_or_generation_too_large_iff_wrapped_sum:
  "(\<exists>m. model_config_type_members c = Some m \<and>
      ((\<exists>es. model_config_type_of c = Inl es \<and>
          error_printer_impl_val prompt_length_or_generation_length_too_large
            [static_max_context_length m, static_max_generation_length m,
             static_max_prompt_length m] \<in> set es)
       \<longleftrightarrow> unat (static_max_context_length m)
             < (unat (static_max_generation_length m) + unat (static_max_prompt_length m))
                 mod 2 ^ 64))
   \<and> model_config_type_of
        (d\<lparr>max_context_length := 10, max_prompt_length := 6, max_generation_length := 6\<rparr>)
       = Inl [error_printer_impl_val prompt_length_or_generation_length_too_large [10, 6, 6]]"
proof
  obtain m where m: "model_config_type_members c = Some m"
    using members_total[of c] by simp
  have "\<not> static_max_generation_length m + static_max_prompt_length m
            \<le> static_max_context_length m
        \<longleftrightarrow> unat (static_max_context_length m)
            < (unat (static_max_generation_length m) + unat (static_max_prompt_length m))
                mod 2 ^ 64"
    by (simp add: word_le_nat_alt not_le unat_word_ariths)
  then show "\<exists>m. model_config_type_members c = Some m \<and>
      ((\<exists>es. model_config_type_of c = Inl es \<and>
          error_printer_impl_val prompt_length_or_generation_length_too_large
            [static_max_context_length m, static_max_generation_length m,
             static_max_prompt_length m] \<in> set es)
       \<longleftrightarrow> unat (static_max_context_length m)
             < (unat (static_max_generation_length m) + unat (static_max_prompt_length m))
                 mod 2 ^ 64)"
    using m by (auto simp: type_of_Inl too_large_in_asserts asserts_Nil)
next
  show "model_config_type_of
        (d\<lparr>max_context_length := 10, max_prompt_length := 6, max_generation_length := 6\<rparr>)
       = Inl [error_printer_impl_val prompt_length_or_generation_length_too_large [10, 6, 6]]"
    by (simp add: validation_defs)
qed

text \<open>
  Claim C5, as stated, at a concrete input. For the default configuration with max context
  length set to 0 (prompt and generation length unset) the static members are computed:
  both lengths resolve to 0, no division by zero takes place, and the only failure is the
  \<open>context_length_too_short\<close> assertion.
\<close>

theorem zero_context_length_divides_by_two:
  "max_context_length (model_config_default\<lparr>max_context_length := 0\<rparr>) = 0
   \<and> max_prompt_length (model_config_default\<lparr>max_context_length := 0\<rparr>) = uint64_max
   \<and> max_generation_length (model_config_default\<lparr>max_context_length := 0\<rparr>) = uint64_max
   \<and> model_config_type_members (model_config_default\<lparr>max_context_length := 0\<rparr>)
       = Some \<lparr> static_exceptions = False, static_max_context_length = 0,
                static_max_prompt_length = 0, static_max_generation_length = 0,
                static_max_batch_size = 1, static_gpu_count = 1, static_gpu_rank = 0,
                static_benchmark = False, static_dev = False \<rparr>
   \<and> model_config_type_of (model_config_default\<lparr>max_context_length := 0\<rparr>)
       = Inl [error_printer_impl_val context_length_too_short [0]]"
  by (simp add: validation_defs model_config_default_def)

text \<open>
  Claim C5 (division in the dependent default), amended. \<open>ceil_div\<close> has no value exactly
  when its divisor is 0; \<open>get_updated_value\<close> passes the context length as the dividend and
  the constant 2 as the divisor, so it always has a value, the static members of every
  configuration are computed, and no instantiation fails for want of a constant expression.
  With context length 0 an unset length resolves to 0.
\<close>

theorem resolution_never_divides_by_zero:
  "(ceil_div a b = None \<longleftrightarrow> b = 0)
   \<and> get_updated_value value_01 value_02
       = (if value_01 = uint64_max then ceil_div value_02 2 else Some value_01)
   \<and> get_updated_value value_01 value_02 \<noteq> None
   \<and> model_config_type_members c \<noteq> None
   \<and> model_config_type_of c \<noteq> Inl [not_a_constant_expression]
   \<and> get_updated_value uint64_max 0 = Some 0"
proof (intro conjI)
  show "ceil_div a b = None \<longleftrightarrow> b = 0"
    by (simp add: ceil_div_def)
  show "get_updated_value value_01 value_02
       = (if value_01 = uint64_max then ceil_div value_02 2 else Some value_01)"
    by (simp add: get_updated_value_def)
  show "get_updated_value value_01 value_02 \<noteq> None"
    by (simp add: get_updated_value_total)
  show "model_config_type_members c \<noteq> None"
    by (simp add: members_total)
  show "model_config_type_of c \<noteq> Inl [not_a_constant_expression]"
    by (auto simp: type_of_Inl model_config_type_asserts_def split: if_splits)
  show "get_updated_value uint64_max 0 = Some 0"
    by (simp add: get_updated_value_total)
qed

text \<open>
  Claim C6 (context length too short). Validation reports \<open>context_length_too_short\<close>, with
  the context length, exactly when the context length is at most 1. In particular every
  configuration with context length 1 fails with this error first, and context length 2
  with prompt and generation length both 1 validates.
\<close>

theorem context_length_too_short_iff:
  "((\<exists>es. model_config_type_of c = Inl es \<and>
         error_printer_impl_val context_length_too_short [max_context_length c] \<in> set es)
     \<longleftrightarrow> unat (max_context_length c) \<le> 1)
   \<and> (\<exists>es. model_config_type_of (d\<lparr>max_context_length := 1\<rparr>)
              = Inl (error_printer_impl_val context_length_too_short [1] # es))
   \<and> model_config_type_of
        (d\<lparr>max_context_length := 2, max_prompt_length := 1, max_generation_length := 1\<rparr>)
       = Inr \<lparr> static_exceptions = exceptions d, static_max_context_length = 2,
               static_max_prompt_length = 1, static_max_generation_length = 1,
               static_max_batch_size = max_batch_size d, static_gpu_count = gpu_count d,
               static_gpu_rank = gpu_rank d, static_benchmark = benchmark d,
               static_dev = dev d \<rparr>"
proof (intro conjI)
  obtain m where m: "model_config_type_members c = Some m"
    "static_max_context_length m = max_context_length c"
    using members_total[of c] by simp
  have "unat (max_context_length c) \<le> 1 \<longleftrightarrow> \<not> 1 < max_context_length c"
    by (simp add: word_less_nat_alt not_less)
  then show "(\<exists>es. model_config_type_of c = Inl es \<and>
         error_printer_impl_val context_length_too_short [max_context_length c] \<in> set es)
     \<longleftrightarrow> unat (max_context_length c) \<le> 1"
    using m by (auto simp: type_of_Inl too_short_in_asserts asserts_Nil)
next
  show "\<exists>es. model_config_type_of (d\<lparr>max_context_length := 1\<rparr>)
              = Inl (error_printer_impl_val context_length_too_short [1] # es)"
    by (simp add: model_config_type_of_def members_total model_config_type_asserts_def)
next
  show "model_config_type_of
        (d\<lparr>max_context_length := 2, max_prompt_length := 1, max_generation_length := 1\<rparr>)
       = Inr \<lparr> static_exceptions = exceptions d, static_max_context_length = 2,
               static_max_prompt_length = 1, static_max_generation_length = 1,
               static_max_batch_size = max_batch_size d, static_gpu_count = gpu_count d,
               static_gpu_rank = gpu_rank d, static_benchmark = benchmark d,
               static_dev = dev d \<rparr>"
    by (simp add: validation_defs)
qed

text \<open>
  Claim C9 (wrap-around in \<open>ceil_div\<close>). With max context length \<open>UINT64_MAX = 2 ^ 64 - 1\<close>
  and both lengths unset, validation succeeds and both lengths resolve to 0, because
  \<open>UINT64_MAX + 2 - 1\<close> is 0 in \<open>uint64_t\<close>; the ceiling of \<open>(2 ^ 64 - 1) / 2\<close> is \<open>2 ^ 63\<close>.
\<close>

theorem uint64_max_context_length_resolves_to_zero:
  "model_config_type_of
     (d\<lparr>max_context_length := uint64_max, max_prompt_length := uint64_max,
        max_generation_length := uint64_max\<rparr>)
     = Inr \<lparr> static_exceptions = exceptions d, static_max_context_length = uint64_max,
             static_max_prompt_length = 0, static_max_generation_length = 0,
             static_max_batch_size = max_batch_size d, static_gpu_count = gpu_count d,
             static_gpu_rank = gpu_rank d, static_benchmark = benchmark d,
             static_dev = dev d \<rparr>
   \<and> unat uint64_max = 2 ^ 64 - 1
   \<and> uint64_max + 2 - 1 = (0 :: u64)
   \<and> ceil_div uint64_max 2 = Some 0
   \<and> ceil_half (unat uint64_max) = 2 ^ 63"
  by (simp add: validation_defs ceil_half_def)

text \<open>
  Claim C10 (wrap-around in the sum check). With context length 1024, prompt length
  \<open>2 ^ 64 - 2\<close> and generation length 3, both set explicitly (neither is the sentinel), the
  sum of the lengths exceeds the context length, the \<open>uint64_t\<close> sum is 1, which is at
  most 1024, and validation succeeds.
\<close>

theorem wrapped_sum_passes_validation:
  "model_config_type_of
     (d\<lparr>max_context_length := 1024, max_prompt_length := 18446744073709551614,
        max_generation_length := 3\<rparr>)
     = Inr \<lparr> static_exceptions = exceptions d, static_max_context_length = 1024,
             static_max_prompt_length = 18446744073709551614,
             static_max_generation_length = 3,
             static_max_batch_size = max_batch_size d, static_gpu_count = gpu_count d,
             static_gpu_rank = gpu_rank d, static_benchmark = benchmark d,
             static_dev = dev d \<rparr>
   \<and> (18446744073709551614 :: u64) \<noteq> uint64_max
   \<and> (3 :: u64) \<noteq> uint64_max
   \<and> unat (18446744073709551614 :: u64) = 2 ^ 64 - 2
   \<and> unat (1024 :: u64) < unat (3 :: u64) + unat (18446744073709551614 :: u64)
   \<and> (3 :: u64) + 18446744073709551614 = 1
   \<and> (1 :: u64) \<le> 1024"
  by (simp add: validation_defs)

end
